theory Spec2Isabelle
  imports Main "HOL-Library.Word"
begin

section \<open>Shared vocabulary\<close>

type_synonym bytes = "8 word list"

text \<open>
  Go's \<^verbatim>\<open>error\<close> values. The named constructors are the errors the sources create
  themselves; \<open>ExternalError\<close> stands for an error handed back by the operating system or
  by a library (its text is the result of \<^verbatim>\<open>Error()\<close>).
\<close>

datatype error =
    ExternalError string
  | ProtectFailed
  | FailedToConnectToFd
  | UnknowNetwork
  | RCodeError "16 word"
  | ErrEmptyResponse

text \<open>
  What a call of the program can do besides returning: panic, or block on a condition
  variable or a read that is never answered.
\<close>

datatype 'a outcome = Returned 'a | Panicked string | Blocked

section \<open>XZ decompression: \<^verbatim>\<open>Unxz\<close> and \<^verbatim>\<open>unxz\<close>\<close>

text \<open>
  The file system is a map from paths to contents. The outcome of each call into the
  operating system and into the xz library is a field of \<open>xz_env\<close>: whether
  \<^verbatim>\<open>os.Open\<close>, \<^verbatim>\<open>xz.NewReader\<close>, \<^verbatim>\<open>os.Create\<close> and \<^verbatim>\<open>os.Rename\<close> fail, and what
  \<^verbatim>\<open>io.Copy\<close> does: the bytes it has written to the output file when it returns, and
  the error it returns (\<open>None\<close> when the stream was decompressed to its end).
\<close>

type_synonym filesystem = "string \<rightharpoonup> bytes"

record xz_env =
  Open_err :: "error option"
  NewReader_err :: "error option"
  Create_err :: "error option"
  Copy_written :: bytes
  Copy_err :: "error option"
  Rename_err :: "error option"

datatype fs_event =
    FsOpen string
  | FsCreate string
  | FsCopy
  | FsClose string
  | FsRename string string

record fs_state =
  files :: filesystem
  fs_trace :: "fs_event list"

definition fs_emit :: "fs_event list \<Rightarrow> fs_state \<Rightarrow> fs_state" where
  "fs_emit es s = s\<lparr>fs_trace := fs_trace s @ es\<rparr>"

text \<open>\<^verbatim>\<open>os.Open\<close>: fails on a missing file, and otherwise when the environment says so.\<close>

definition os_Open :: "xz_env \<Rightarrow> fs_state \<Rightarrow> string \<Rightarrow> error option" where
  "os_Open env s name =
     (case files s name of
        None \<Rightarrow> Some (ExternalError ''no such file or directory'')
      | Some _ \<Rightarrow> Open_err env)"

text \<open>\<^verbatim>\<open>os.Create\<close>: creates the file, or truncates the one that is there.\<close>

definition os_Create :: "fs_state \<Rightarrow> string \<Rightarrow> fs_state" where
  "os_Create s name = fs_emit [FsCreate name] (s\<lparr>files := (files s)(name \<mapsto> [])\<rparr>)"

text \<open>Writing through the open output file appends to what the file holds.\<close>

definition file_write :: "fs_state \<Rightarrow> string \<Rightarrow> bytes \<Rightarrow> fs_state" where
  "file_write s name bs =
     (case files s name of
        None \<Rightarrow> s
      | Some old \<Rightarrow> s\<lparr>files := (files s)(name \<mapsto> old @ bs)\<rparr>)"

text \<open>\<^verbatim>\<open>os.Rename\<close>: on success the new path holds the old path's file, which is gone.\<close>

definition os_Rename :: "xz_env \<Rightarrow> fs_state \<Rightarrow> string \<Rightarrow> string \<Rightarrow> error option \<times> fs_state" where
  "os_Rename env s oldpath newpath =
     (case files s oldpath of
        None \<Rightarrow> (Some (ExternalError ''no such file or directory''), s)
      | Some c \<Rightarrow>
          (case Rename_err env of
             Some err \<Rightarrow> (Some err, s)
           | None \<Rightarrow>
               (None, fs_emit [FsRename oldpath newpath]
                        (s\<lparr>files := ((files s)(oldpath := None))(newpath \<mapsto> c)\<rparr>))))"

definition Unxz :: "xz_env \<Rightarrow> fs_state \<Rightarrow> string \<Rightarrow> string \<Rightarrow> error option \<times> fs_state" where
  "Unxz env s archive path =
     (case os_Open env s archive of
        Some err \<Rightarrow> (Some err, s)
      | None \<Rightarrow>
          (let s1 = fs_emit [FsOpen archive] s in
           case NewReader_err env of
             Some err \<Rightarrow> (Some err, fs_emit [FsClose archive] s1)
           | None \<Rightarrow>
               (case Create_err env of
                  Some err \<Rightarrow> (Some err, fs_emit [FsClose archive] s1)
                | None \<Rightarrow>
                    (let s2 = os_Create s1 path;
                         s3 = fs_emit [FsCopy] (file_write s2 path (Copy_written env));
                         s4 = fs_emit [FsClose archive, FsClose path] s3
                     in (Copy_err env, s4)))))"

definition unxz :: "xz_env \<Rightarrow> fs_state \<Rightarrow> string \<Rightarrow> error option \<times> fs_state" where
  "unxz env s path =
     (case Unxz env s path (path @ ''.tmp'') of
        (Some err, s') \<Rightarrow> (Some err, s')
      | (None, s') \<Rightarrow> os_Rename env s' (path @ ''.tmp'') path)"

section \<open>The protected dialer: \<^verbatim>\<open>getFd\<close> and \<^verbatim>\<open>protectedDialer.dial\<close>\<close>

datatype network = Network_Unknown | Network_TCP | Network_UDP | Network_UNIX

text \<open>
  An address of the proxy core is an IP address (4 or 16 bytes) or a domain name;
  \<^verbatim>\<open>IP()\<close> panics on a domain name.
\<close>

datatype address = IPAddress bytes | DomainAddress string

record destination =
  Address :: address
  Port :: "16 word"
  Network :: network

datatype addr_family = AF_INET | AF_INET6
datatype sock_type = SOCK_STREAM | SOCK_DGRAM
datatype ip_proto = IPPROTO_TCP | IPPROTO_UDP | IPPROTO_0

datatype sockaddr = SockaddrInet4 nat bytes | SockaddrInet6 nat bytes

text \<open>
  The system calls the dialer makes, in the order it makes them. A file descriptor is
  open from the \<^verbatim>\<open>socket\<close> (or the duplication) that returned it until it is closed.
\<close>

datatype sys_event =
    SysSocket addr_family sock_type ip_proto int
  | SysProtect int
  | SysApplySockopt int
  | SysConnect int sockaddr
  | SysDup int int
  | SysClose int

record os_state =
  open_fds :: "int set"
  sys_trace :: "sys_event list"

text \<open>
  What the operating system and the protector answer: the result of \<^verbatim>\<open>unix.Socket\<close>,
  of \<^verbatim>\<open>Protect\<close>, of \<^verbatim>\<open>unix.Connect\<close>, of \<^verbatim>\<open>net.FileConn\<close> or
  \<^verbatim>\<open>net.FilePacketConn\<close> (the descriptor of the copy they make) and of
  \<^verbatim>\<open>net.ResolveUDPAddr\<close>.
\<close>

record dial_env =
  Socket_res :: "error + int"
  Protect_res :: bool
  Connect_err :: "error option"
  FileConn_res :: "error + int"
  ResolveUDPAddr_err :: "error option"

text \<open>The connection object \<^verbatim>\<open>dial\<close> hands back, over the duplicated descriptor.\<close>

datatype dialed_conn = FileConn int | PacketConnWrapper int sockaddr

definition sys_emit :: "sys_event list \<Rightarrow> os_state \<Rightarrow> os_state" where
  "sys_emit es s = s\<lparr>sys_trace := sys_trace s @ es\<rparr>"

definition unix_Socket ::
  "dial_env \<Rightarrow> os_state \<Rightarrow> addr_family \<Rightarrow> sock_type \<Rightarrow> ip_proto \<Rightarrow> (error + int) \<times> os_state" where
  "unix_Socket env s af ty pr =
     (case Socket_res env of
        Inl err \<Rightarrow> (Inl err, s)
      | Inr fd \<Rightarrow> (Inr fd, sys_emit [SysSocket af ty pr fd] (s\<lparr>open_fds := insert fd (open_fds s)\<rparr>)))"

definition unix_Close :: "os_state \<Rightarrow> int \<Rightarrow> os_state" where
  "unix_Close s fd = sys_emit [SysClose fd] (s\<lparr>open_fds := open_fds s - {fd}\<rparr>)"

text \<open>
  \<^verbatim>\<open>net.FileConn\<close> and \<^verbatim>\<open>net.FilePacketConn\<close> duplicate the descriptor of the file;
  the file itself stays open until it is closed.
\<close>

definition net_FileConn :: "dial_env \<Rightarrow> os_state \<Rightarrow> int \<Rightarrow> (error + int) \<times> os_state" where
  "net_FileConn env s fd =
     (case FileConn_res env of
        Inl err \<Rightarrow> (Inl err, s)
      | Inr fd' \<Rightarrow> (Inr fd', sys_emit [SysDup fd fd'] (s\<lparr>open_fds := insert fd' (open_fds s)\<rparr>)))"

definition getFd :: "dial_env \<Rightarrow> os_state \<Rightarrow> network \<Rightarrow> bool \<Rightarrow> (error + int) \<times> os_state" where
  "getFd env s network ipv6 =
     (let af = (if \<not> ipv6 then AF_INET else AF_INET6) in
      case network of
        Network_TCP \<Rightarrow> unix_Socket env s af SOCK_STREAM IPPROTO_TCP
      | Network_UDP \<Rightarrow> unix_Socket env s af SOCK_DGRAM IPPROTO_UDP
      | Network_UNIX \<Rightarrow> unix_Socket env s af SOCK_STREAM IPPROTO_0
      | Network_Unknown \<Rightarrow> (Inl UnknowNetwork, s))"

text \<open>Go's \<^verbatim>\<open>copy\<close> into a zeroed array of \<open>n\<close> bytes.\<close>

definition copy_into :: "nat \<Rightarrow> bytes \<Rightarrow> bytes" where
  "copy_into n src = take n src @ replicate (n - length src) 0"

text \<open>
  \<^verbatim>\<open>dial\<close>. The argument \<open>sockopt\<close> says whether the socket configuration is non-nil.
  The result is the pair the Go function returns (an error, or a connection that may be
  nil) with the state of the operating system it leaves.
\<close>

definition dial ::
  "dial_env \<Rightarrow> os_state \<Rightarrow> destination \<Rightarrow> bool \<Rightarrow> ((error + dialed_conn option) \<times> os_state) outcome" where
  "dial env s destination sockopt =
     (case Address destination of
        DomainAddress _ \<Rightarrow> Panicked ''Calling IP() on a DomainAddress.''
      | IPAddress destIp \<Rightarrow>
          (let ipv6 = (length destIp \<noteq> 4) in
           case getFd env s (Network destination) ipv6 of
             (Inl err, s1) \<Rightarrow> Returned (Inl err, s1)
           | (Inr fd, s1) \<Rightarrow>
               (let s2 = sys_emit [SysProtect fd] s1 in
                if \<not> Protect_res env then Returned (Inl ProtectFailed, s2)
                else
                  (let s3 = (if sockopt then sys_emit [SysApplySockopt fd] s2 else s2);
                       sa = (if \<not> ipv6
                             then SockaddrInet4 (unat (Port destination)) (copy_into 4 destIp)
                             else SockaddrInet6 (unat (Port destination)) (copy_into 16 destIp));
                       s4 = sys_emit [SysConnect fd sa] s3
                   in case Connect_err env of
                        Some err \<Rightarrow> Returned (Inl err, s4)
                      | None \<Rightarrow>
                          if fd < 0 then Returned (Inl FailedToConnectToFd, s4)
                          else
                            (case Network destination of
                               Network_UDP \<Rightarrow>
                                 (case net_FileConn env s4 fd of
                                    (Inr fd', s5) \<Rightarrow>
                                      (case ResolveUDPAddr_err env of
                                         Some err \<Rightarrow> Returned (Inl err, s5)
                                       | None \<Rightarrow>
                                           Returned (Inr (Some (PacketConnWrapper fd' sa)),
                                                     unix_Close s5 fd))
                                  | (Inl _, s5) \<Rightarrow> Returned (Inr None, unix_Close s5 fd))
                             | _ \<Rightarrow>
                                 (case net_FileConn env s4 fd of
                                    (Inl err, s5) \<Rightarrow> Returned (Inl err, s5)
                                  | (Inr fd', s5) \<Rightarrow>
                                      Returned (Inr (Some (FileConn fd')), unix_Close s5 fd)))))))"

section \<open>The local DNS lookup hook installed by \<^verbatim>\<open>NewTun2ray\<close>\<close>

text \<open>
  \<^verbatim>\<open>strings.Split(s, sep)\<close> for a separator of one byte: the pieces of \<open>s\<close> between the
  occurrences of the separator. A string without the separator gives the one piece \<open>s\<close>.
\<close>

fun strings_Split :: "string \<Rightarrow> char \<Rightarrow> string list" where
  "strings_Split [] c = [[]]"
| "strings_Split (x # xs) c =
     (if x = c then [] # strings_Split xs c
      else (case strings_Split xs c of
              [] \<Rightarrow> [[x]]
            | w # ws \<Rightarrow> (x # w) # ws))"

definition strings_HasPrefix :: "string \<Rightarrow> string \<Rightarrow> bool" where
  "strings_HasPrefix s p = (take (length p) s = p)"

text \<open>
  The resolver of the host application and the two library functions the hook calls:
  \<^verbatim>\<open>LookupIP\<close> answers with a string or with an error, of which the hook reads the text;
  \<^verbatim>\<open>strconv.Atoi\<close>, whose error the hook drops; \<^verbatim>\<open>net.ParseIP\<close>, which gives nil
  (\<open>None\<close>) for a text that is not an address. \<^verbatim>\<open>dns.RCodeError\<close> is a 16-bit unsigned
  integer: the conversion keeps the low 16 bits of the number read.
\<close>

record resolver_env =
  LookupIP :: "string \<Rightarrow> string \<Rightarrow> string + string"
  Atoi :: "string \<Rightarrow> int"
  ParseIP :: "string \<Rightarrow> bytes option"

definition lookupFunc ::
  "resolver_env \<Rightarrow> string \<Rightarrow> string \<Rightarrow> (error + bytes option list) outcome" where
  "lookupFunc env network host =
     (case LookupIP env network host of
        Inl errStr \<Rightarrow>
          if strings_HasPrefix errStr ''rcode'' then
            (case strings_Split errStr CHR '' '' of
               _ # w # _ \<Rightarrow> Returned (Inl (RCodeError (word_of_int (Atoi env w))))
             | _ \<Rightarrow> Panicked ''index out of range'')
          else Returned (Inl (ExternalError errStr))
      | Inr response \<Rightarrow>
          (let addrs = strings_Split response CHR '','';
               ips = map (ParseIP env) addrs
           in if length ips = 0 then Returned (Inl ErrEmptyResponse)
              else Returned (Inr ips)))"

section \<open>The flow dispatcher \<^verbatim>\<open>Tun2ray\<close>: data\<close>

text \<open>
  Modelled from the spec: the declaration of \<^verbatim>\<open>appStats\<close> is not among the sources. The
  fields are the ones the dispatcher reads and writes; their widths are those of the atomic
  operations applied to them (\<^verbatim>\<open>AddInt32\<close> on the live counters, \<^verbatim>\<open>AddUint32\<close> on the
  totals, \<^verbatim>\<open>StoreInt64\<close> on \<^verbatim>\<open>deactivateAt\<close>) and, for the byte counters, the 64 bits
  the spec asks for. The live counters and \<^verbatim>\<open>deactivateAt\<close> are signed: \<open>sint\<close> reads them.
\<close>

record appStats =
  tcpConn :: "32 word"
  udpConn :: "32 word"
  tcpConnTotal :: "32 word"
  udpConnTotal :: "32 word"
  uplink :: "64 word"
  downlink :: "64 word"
  deactivateAt :: "64 word"

text \<open>\<^verbatim>\<open>&appStats{}\<close>: every field has Go's zero value.\<close>

definition new_appStats :: appStats where
  "new_appStats =
     \<lparr>tcpConn = 0, udpConn = 0, tcpConnTotal = 0, udpConnTotal = 0,
      uplink = 0, downlink = 0, deactivateAt = 0\<rparr>"

text \<open>
  A connection handed in by the TUN adapter or made by the proxy core is known by a number;
  the counting wrappers hold the connection they wrap and point at the counters of a uid.
\<close>

datatype conn = Conn nat | StatsConn conn "16 word" | StatsPacketConn conn "16 word"

record UidInfo =
  Label :: string
  PackageName :: string

datatype outbound_proxy = WireGuardClient | OtherProxy

text \<open>
  An outbound handler, by its tag: one of the proxy core's own handlers
  (\<^verbatim>\<open>*appOutbound.Handler\<close>) with the kind of its outbound, or a handler of another type.
\<close>

datatype handler = AppOutboundHandler string outbound_proxy | ForeignHandler string

record inbound =
  Source :: destination
  Tag :: string
  NetworkType :: string
  WifiSSID :: string
  Uid :: "32 word"

record sniffing_request =
  Enabled :: bool
  RouteOnly :: bool
  OverrideDestinationForProtocol :: "string list"

record content =
  SniffingRequest :: sniffing_request
  Protocol :: string

record session_ctx =
  ctx_inbound :: inbound
  ctx_outbound :: "destination option"
  ctx_content :: "content option"

text \<open>The keys of \<^verbatim>\<open>lockTable\<close> are NAT keys (strings) and uids.\<close>

datatype table_key = StrKey string | UidKey "16 word"

datatype closable = CloseConn conn | CloseCloser | CloseLinkReader | CloseLinkWriter | CloseDev

datatype task = SendToTask string | PingPumpTask conn nat

text \<open>
  The effects of the dispatcher on its collaborators, in the order they happen: writes to
  and closes of connections, broadcasts on condition variables, log lines, calls into the
  proxy core, write-backs to the TUN adapter, and goroutines started.
\<close>

datatype event =
    EvWriteTo conn bytes bytes nat
  | EvClose closable
  | EvBroadcast nat
  | EvLog string
  | EvLogFlow string "UidInfo option" "16 word" string string
  | EvDispatchLink session_ctx destination
  | EvDialUDP session_ctx destination
  | EvHandleUDP session_ctx handler destination
  | EvWriteBack bytes "(bytes \<times> nat) option"
  | EvGo task

text \<open>
  The dispatcher. \<open>connections\<close> is the linked list: each element is known by the token
  that \<^verbatim>\<open>PushBack\<close> returned for it. \<open>next_id\<close> numbers the condition variables and the
  list elements as they are allocated, and \<open>events\<close> collects the effects.
\<close>

record tun2ray =
  router :: string
  sniffing :: bool
  overrideDestination :: bool
  debug :: bool
  dumpUid :: bool
  trafficStats :: bool
  udpTable :: "string \<rightharpoonup> conn"
  appStatsTable :: "16 word \<rightharpoonup> appStats"
  lockTable :: "table_key \<rightharpoonup> nat"
  connections :: "(nat \<times> conn) list"
  defaultOutboundForPing :: "handler option"
  next_id :: nat
  events :: "event list"

datatype net_addr = UDPAddr bytes nat | OtherAddr string

text \<open>
  What the collaborators answer. \<open>Wait\<close> is the state of the dispatcher when
  \<^verbatim>\<open>cond.Wait()\<close> returns, after the other goroutines have run (\<open>None\<close>: it is never
  woken). \<open>readFrom_seq\<close> lists the results of the successive \<^verbatim>\<open>readFrom()\<close> calls on a
  connection; a read after the last of them never returns.
\<close>

record tun_env =
  networkType :: string
  wifiSSID :: string
  ip_String :: "bytes \<Rightarrow> string"
  port_String :: "16 word \<Rightarrow> string"
  DumpUid :: "bool \<Rightarrow> bool \<Rightarrow> string \<Rightarrow> 32 word \<Rightarrow> string \<Rightarrow> 32 word \<Rightarrow> error + 32 word"
  GetUidInfo :: "32 word \<Rightarrow> UidInfo option"
  Getuid :: int
  Wait :: "tun2ray \<Rightarrow> tun2ray option"
  DispatchLink_err :: "session_ctx \<Rightarrow> destination \<Rightarrow> error option"
  copy_err :: "error option"
  Now_Unix :: "64 word"
  WriteTo_err :: "conn \<Rightarrow> bytes \<Rightarrow> error option"
  dialUDP_res :: "session_ctx \<Rightarrow> destination \<Rightarrow> error + conn"
  readFrom_seq :: "conn \<Rightarrow> (error + bytes \<times> net_addr option) list"
  writeBack_err :: "bytes \<Rightarrow> (bytes \<times> nat) option \<Rightarrow> error option"
  PickRoute :: "session_ctx \<Rightarrow> error + string"
  GetHandler :: "string \<Rightarrow> handler option"
  handleUDP :: "session_ctx \<Rightarrow> handler \<Rightarrow> destination \<Rightarrow> conn"

definition emit :: "event list \<Rightarrow> tun2ray \<Rightarrow> tun2ray" where
  "emit es t = t\<lparr>events := events t @ es\<rparr>"

definition map_outcome :: "('a \<Rightarrow> 'b) \<Rightarrow> 'a outcome \<Rightarrow> 'b outcome" where
  "map_outcome f r = (case r of Returned x \<Rightarrow> Returned (f x) | Panicked m \<Rightarrow> Panicked m | Blocked \<Rightarrow> Blocked)"

subsection \<open>Addresses as the proxy core renders them\<close>

definition Address_String :: "tun_env \<Rightarrow> address \<Rightarrow> string" where
  "Address_String env a =
     (case a of
        DomainAddress d \<Rightarrow> d
      | IPAddress ip \<Rightarrow> if length ip = 16 then ''['' @ ip_String env ip @ '']'' else ip_String env ip)"

definition NetAddr :: "tun_env \<Rightarrow> destination \<Rightarrow> string" where
  "NetAddr env d = Address_String env (Address d) @ '':'' @ port_String env (Port d)"

definition IsIPv6 :: "address \<Rightarrow> bool" where
  "IsIPv6 a = (case a of IPAddress ip \<Rightarrow> length ip = 16 | DomainAddress _ \<Rightarrow> False)"

subsection \<open>The connection list\<close>

definition PushBack :: "conn \<Rightarrow> tun2ray \<Rightarrow> nat \<times> tun2ray" where
  "PushBack c t =
     (next_id t, t\<lparr>connections := connections t @ [(next_id t, c)], next_id := Suc (next_id t)\<rparr>)"

definition Remove :: "nat \<Rightarrow> tun2ray \<Rightarrow> tun2ray" where
  "Remove element t = t\<lparr>connections := filter (\<lambda>e. fst e \<noteq> element) (connections t)\<rparr>"

text \<open>\<^verbatim>\<open>Close\<close>: closes the device, then every connection of the list, which it leaves as it is.\<close>

definition Close :: "tun2ray \<Rightarrow> tun2ray" where
  "Close t = emit (EvClose CloseDev # map (\<lambda>e. EvClose (CloseConn (snd e))) (connections t)) t"

subsection \<open>Initialisation: the default outbound for ping\<close>

text \<open>
  \<^verbatim>\<open>NewTun2ray\<close> keeps the default handler for ping only when it is one of the proxy core's
  own handlers and its outbound is a WireGuard client.
\<close>

definition capture_defaultOutboundForPing :: "handler option \<Rightarrow> handler option" where
  "capture_defaultOutboundForPing d =
     (case d of
        Some (AppOutboundHandler tag WireGuardClient) \<Rightarrow> Some (AppOutboundHandler tag WireGuardClient)
      | _ \<Rightarrow> None)"

subsection \<open>Per-application counters\<close>

definition upd_stats :: "16 word \<Rightarrow> (appStats \<Rightarrow> appStats) \<Rightarrow> tun2ray \<Rightarrow> tun2ray" where
  "upd_stats uid f t =
     (case appStatsTable t uid of
        None \<Rightarrow> t
      | Some st \<Rightarrow> t\<lparr>appStatsTable := (appStatsTable t)(uid \<mapsto> f st)\<rparr>)"

text \<open>
  Looking the counters of a uid up, or creating them under the single-flight discipline.
  The text is the same in \<^verbatim>\<open>NewConnection\<close> and in \<^verbatim>\<open>NewPacket\<close>. Afterwards
  \<^verbatim>\<open>stats\<close> points at the entry of \<open>uid\<close> in the table.
\<close>

definition acquire_stats :: "tun_env \<Rightarrow> 16 word \<Rightarrow> tun2ray \<Rightarrow> tun2ray outcome" where
  "acquire_stats env uid t =
     (case appStatsTable t uid of
        Some _ \<Rightarrow> Returned t
      | None \<Rightarrow>
          (case lockTable t (UidKey uid) of
             Some cond \<Rightarrow>
               (case Wait env t of
                  None \<Rightarrow> Blocked
                | Some t' \<Rightarrow>
                    (case appStatsTable t' uid of
                       None \<Rightarrow> Panicked ''unexpected sync read failed''
                     | Some _ \<Rightarrow> Returned t'))
           | None \<Rightarrow>
               (let cond = next_id t;
                    t1 = t\<lparr>lockTable := (lockTable t)(UidKey uid \<mapsto> cond), next_id := Suc (next_id t)\<rparr>;
                    t2 = t1\<lparr>appStatsTable := (appStatsTable t1)(uid \<mapsto> new_appStats)\<rparr>;
                    t3 = t2\<lparr>lockTable := (lockTable t2)(UidKey uid := None)\<rparr>
                in Returned (emit [EvBroadcast cond] t3))))"

text \<open>
  The counters of a uid are shared by the goroutines of all its flows, and every access to
  them is an atomic operation of its own. A flow makes six of them. At its start:
  \<^verbatim>\<open>AddInt32\<close> of 1 to its live counter, \<^verbatim>\<open>AddUint32\<close> of 1 to its total, \<^verbatim>\<open>StoreInt64\<close>
  of 0 in \<^verbatim>\<open>deactivateAt\<close>. In the deferred function at its end: \<^verbatim>\<open>AddInt32\<close> of -1 to
  its live counter, which returns the new value; \<^verbatim>\<open>LoadInt32\<close> of the other live counter;
  and, when the two values add up to 0, \<^verbatim>\<open>StoreInt64\<close> of the time. \<open>flow_pc\<close> is the
  operation a flow makes next, with what the flow has read so far.
\<close>

datatype flow_kind = TcpFlow | UdpFlow

datatype flow_pc =
    PcAddConn
  | PcAddTotal
  | PcStoreZero
  | PcInFlight
  | PcLoadOther "32 word"
  | PcStamp bool
  | PcDone

text \<open>
  One atomic operation of a flow on the counters; \<open>now\<close> is what \<^verbatim>\<open>time.Now().Unix()\<close>
  gives when the flow stamps.
\<close>

definition flow_step ::
  "flow_kind \<Rightarrow> 64 word \<Rightarrow> flow_pc \<Rightarrow> appStats \<Rightarrow> flow_pc \<times> appStats" where
  "flow_step k now p st =
     (case p of
        PcAddConn \<Rightarrow>
          (PcAddTotal,
           case k of TcpFlow \<Rightarrow> st\<lparr>tcpConn := tcpConn st + 1\<rparr>
                   | UdpFlow \<Rightarrow> st\<lparr>udpConn := udpConn st + 1\<rparr>)
      | PcAddTotal \<Rightarrow>
          (PcStoreZero,
           case k of TcpFlow \<Rightarrow> st\<lparr>tcpConnTotal := tcpConnTotal st + 1\<rparr>
                   | UdpFlow \<Rightarrow> st\<lparr>udpConnTotal := udpConnTotal st + 1\<rparr>)
      | PcStoreZero \<Rightarrow> (PcInFlight, st\<lparr>deactivateAt := 0\<rparr>)
      | PcInFlight \<Rightarrow>
          (case k of
             TcpFlow \<Rightarrow> (PcLoadOther (tcpConn st - 1), st\<lparr>tcpConn := tcpConn st - 1\<rparr>)
           | UdpFlow \<Rightarrow> (PcLoadOther (udpConn st - 1), st\<lparr>udpConn := udpConn st - 1\<rparr>))
      | PcLoadOther v \<Rightarrow>
          (PcStamp (v + (case k of TcpFlow \<Rightarrow> udpConn st | UdpFlow \<Rightarrow> tcpConn st) = 0), st)
      | PcStamp b \<Rightarrow> (PcDone, if b then st\<lparr>deactivateAt := now\<rparr> else st)
      | PcDone \<Rightarrow> (PcDone, st))"

text \<open>A flow making its next \<open>n\<close> operations with no other flow in between.\<close>

fun flow_steps ::
  "nat \<Rightarrow> flow_kind \<Rightarrow> 64 word \<Rightarrow> flow_pc \<Rightarrow> appStats \<Rightarrow> flow_pc \<times> appStats" where
  "flow_steps 0 k now p st = (p, st)"
| "flow_steps (Suc n) k now p st =
     (case flow_step k now p st of (p', st') \<Rightarrow> flow_steps n k now p' st')"

text \<open>
  The start of a flow and its deferred end, as the goroutine of the flow runs them: the
  three operations one after the other.
\<close>

definition flow_start :: "flow_kind \<Rightarrow> appStats \<Rightarrow> appStats" where
  "flow_start k st = snd (flow_steps 3 k 0 PcAddConn st)"

definition flow_end :: "flow_kind \<Rightarrow> 64 word \<Rightarrow> appStats \<Rightarrow> appStats" where
  "flow_end k now st = snd (flow_steps 3 k now PcInFlight st)"

definition tcp_flow_start :: "appStats \<Rightarrow> appStats" where
  "tcp_flow_start st = flow_start TcpFlow st"

definition tcp_flow_end :: "64 word \<Rightarrow> appStats \<Rightarrow> appStats" where
  "tcp_flow_end now st = flow_end TcpFlow now st"

definition udp_flow_start :: "appStats \<Rightarrow> appStats" where
  "udp_flow_start st = flow_start UdpFlow st"

definition udp_flow_end :: "64 word \<Rightarrow> appStats \<Rightarrow> appStats" where
  "udp_flow_end now st = flow_end UdpFlow now st"








section \<open>The flow dispatcher: operations\<close>

subsection \<open>Session context\<close>

text \<open>
  The inbound annotation both handlers start from, and the context with the sniffing
  request; \<open>protocols\<close> is what the handler appends to the request.
\<close>

definition new_inbound :: "tun_env \<Rightarrow> destination \<Rightarrow> bool \<Rightarrow> inbound" where
  "new_inbound env source isDns =
     \<lparr>Source = source, Tag = (if isDns then ''dns-in'' else ''tun''),
      NetworkType = networkType env, WifiSSID = wifiSSID env, Uid = 0\<rparr>"

definition build_ctx :: "tun2ray \<Rightarrow> bool \<Rightarrow> inbound \<Rightarrow> string list \<Rightarrow> session_ctx" where
  "build_ctx t isDns inb protocols =
     \<lparr>ctx_inbound = inb, ctx_outbound = None,
      ctx_content =
        (if \<not> isDns \<and> sniffing t
         then Some \<lparr>SniffingRequest =
                      \<lparr>Enabled = True, RouteOnly = (\<not> overrideDestination t),
                       OverrideDestinationForProtocol = (if sniffing t then protocols else [])\<rparr>,
                    Protocol = []\<rparr>
         else None)\<rparr>"

subsection \<open>Attribution of a flow to a uid\<close>

text \<open>
  The block of \<^verbatim>\<open>NewConnection\<close> that asks the uid dumper: it gives the uid (normalised),
  whether the flow is the process's own, the inbound annotation with the uid recorded, and
  the dispatcher with the log line added.
\<close>

definition nc_uid ::
  "tun_env \<Rightarrow> tun2ray \<Rightarrow> destination \<Rightarrow> destination \<Rightarrow> inbound
     \<Rightarrow> (16 word \<times> bool \<times> inbound \<times> tun2ray) outcome" where
  "nc_uid env t source destination inb =
     (if dumpUid t \<or> trafficStats t then
        (case (Address source, Address destination) of
           (IPAddress sip, IPAddress dip) \<Rightarrow>
             (case DumpUid env (IsIPv6 (Address destination)) False
                     (ip_String env sip) (ucast (Port source))
                     (ip_String env dip) (ucast (Port destination)) of
                Inl _ \<Rightarrow> Returned (0, False, inb, t)
              | Inr u \<Rightarrow>
                  (let uid = (ucast u :: 16 word);
                       self = (uid > 0 \<and> uint uid = Getuid env);
                       t1 = (if debug t \<and> \<not> self \<and> uid \<ge> 10000
                             then emit [EvLogFlow ''TCP'' (GetUidInfo env (ucast uid)) uid
                                          (NetAddr env source) (NetAddr env destination)] t
                             else t);
                       uid' = (if uid < 10000 then 1000 else uid)
                   in Returned (uid', self, inb\<lparr>Uid := ucast uid'\<rparr>, t1)))
         | _ \<Rightarrow> Panicked ''Calling IP() on a DomainAddress.'')
      else Returned (0, False, inb, t))"

text \<open>The same block in \<^verbatim>\<open>NewPacket\<close>.\<close>

definition np_uid ::
  "tun_env \<Rightarrow> tun2ray \<Rightarrow> destination \<Rightarrow> destination \<Rightarrow> bool \<Rightarrow> inbound
     \<Rightarrow> 16 word \<times> bool \<times> inbound \<times> tun2ray" where
  "np_uid env t source destination isDns inb =
     (if dumpUid t \<or> trafficStats t then
        (case DumpUid env (IsIPv6 (Address source)) True
                (Address_String env (Address source)) (ucast (Port source))
                (Address_String env (Address destination)) (ucast (Port destination)) of
           Inl _ \<Rightarrow> (0, False, inb, t)
         | Inr u \<Rightarrow>
             (let uid = (ucast u :: 16 word);
                  self = (uid > 0 \<and> uint uid = Getuid env);
                  t1 = (if debug t \<and> \<not> self \<and> uid \<ge> 1000
                        then emit [EvLogFlow (if \<not> isDns then ''UDP'' else ''DNS'')
                                     (GetUidInfo env (ucast uid)) uid
                                     (NetAddr env source) (NetAddr env destination)] t
                        else t);
                  uid' = (if uid < 10000 then 1000 else uid)
              in (uid', self, inb\<lparr>Uid := ucast uid'\<rparr>, t1)))
      else (0, False, inb, t))"

subsection \<open>\<^verbatim>\<open>NewConnection\<close>\<close>

text \<open>
  From the registration of the connection to the end of \<^verbatim>\<open>NewConnection\<close>: the dispatch,
  the copy task and the removal from the list.
\<close>

definition nc_dispatch ::
  "tun_env \<Rightarrow> tun2ray \<Rightarrow> session_ctx \<Rightarrow> destination \<Rightarrow> conn \<Rightarrow> tun2ray" where
  "nc_dispatch env t ctx destination c =
     (case PushBack c t of
        (element, t1) \<Rightarrow>
          (let t2 = emit [EvDispatchLink ctx destination] t1 in
           case DispatchLink_err env ctx destination of
             Some err \<Rightarrow> emit [EvLog ''[TCP] dispatchLink failed: ''] t2
           | None \<Rightarrow>
               (let t3 = (case copy_err env of
                            Some err \<Rightarrow>
                              emit [EvClose (CloseConn c), EvClose CloseLinkReader,
                                    EvClose CloseLinkWriter, EvLog ''connection finished: ''] t2
                          | None \<Rightarrow>
                              emit [EvClose (CloseConn c), EvClose CloseLinkWriter,
                                    EvClose CloseLinkReader] t2)
                in Remove element t3)))"

definition NewConnection ::
  "tun_env \<Rightarrow> tun2ray \<Rightarrow> destination \<Rightarrow> destination \<Rightarrow> conn \<Rightarrow> tun2ray outcome" where
  "NewConnection env t source destination c =
     (let isDns = (Address_String env (Address destination) = router t);
          inb = new_inbound env source isDns
      in case nc_uid env t source destination inb of
           Panicked m \<Rightarrow> Panicked m
         | Blocked \<Rightarrow> Blocked
         | Returned (uid, self, inb', t1) \<Rightarrow>
             (let ctx = build_ctx t isDns inb' [''http'', ''tls''] in
              if trafficStats t \<and> \<not> self \<and> \<not> isDns then
                (case acquire_stats env uid t1 of
                   Panicked m \<Rightarrow> Panicked m
                 | Blocked \<Rightarrow> Blocked
                 | Returned t2 \<Rightarrow>
                     (let t3 = upd_stats uid tcp_flow_start t2;
                          t4 = nc_dispatch env t3 ctx destination (StatsConn c uid)
                      in Returned (upd_stats uid (tcp_flow_end (Now_Unix env)) t4)))
              else Returned (nc_dispatch env t1 ctx destination c)))"

subsection \<open>The fast-path send\<close>

text \<open>The closure \<^verbatim>\<open>sendTo\<close> of \<^verbatim>\<open>NewPacket\<close>.\<close>

definition sendTo ::
  "tun_env \<Rightarrow> tun2ray \<Rightarrow> string \<Rightarrow> bytes \<Rightarrow> destination \<Rightarrow> (bool \<times> tun2ray) outcome" where
  "sendTo env t natKey data destination =
     (case udpTable t natKey of
        None \<Rightarrow> Returned (False, t)
      | Some c \<Rightarrow>
          (case Address destination of
             DomainAddress _ \<Rightarrow> Panicked ''Calling IP() on a DomainAddress.''
           | IPAddress ip \<Rightarrow>
               (let t1 = emit [EvWriteTo c data ip (unat (Port destination))] t in
                case WriteTo_err env c data of
                  Some err \<Rightarrow> Returned (True, emit [EvClose (CloseConn c)] t1)
                | None \<Rightarrow> Returned (True, t1))))"

text \<open>The closure \<^verbatim>\<open>sendTo\<close> of \<^verbatim>\<open>NewPingPacket\<close>, which also logs the failed write.\<close>

definition ping_sendTo ::
  "tun_env \<Rightarrow> tun2ray \<Rightarrow> string \<Rightarrow> bytes \<Rightarrow> destination \<Rightarrow> (bool \<times> tun2ray) outcome" where
  "ping_sendTo env t natKey message destination =
     (case udpTable t natKey of
        None \<Rightarrow> Returned (False, t)
      | Some c \<Rightarrow>
          (case Address destination of
             DomainAddress _ \<Rightarrow> Panicked ''Calling IP() on a DomainAddress.''
           | IPAddress ip \<Rightarrow>
               (let t1 = emit [EvWriteTo c message ip (unat (Port destination))] t in
                case WriteTo_err env c message of
                  Some err \<Rightarrow>
                    Returned (True, emit [EvClose (CloseConn c),
                                          EvLog ''failed to write ping request to ''] t1)
                | None \<Rightarrow> Returned (True, t1))))"

subsection \<open>\<^verbatim>\<open>NewPacket\<close>\<close>

text \<open>
  The reverse-path pump: one step for each result of \<^verbatim>\<open>readFrom()\<close>, until a read or a
  write-back fails. It gives the write-backs made, or \<open>None\<close> when the reads run out and
  the pump stays blocked.
\<close>

fun udp_pump ::
  "(bytes \<Rightarrow> (bytes \<times> nat) option \<Rightarrow> error option) \<Rightarrow> bool
     \<Rightarrow> (error + bytes \<times> net_addr option) list \<Rightarrow> event list option" where
  "udp_pump wb isDns [] = None"
| "udp_pump wb isDns (Inl err # rs) = Some []"
| "udp_pump wb isDns (Inr (buffer, addr) # rs) =
     (let addr' = (if isDns then None else addr);
          arg = (case addr' of Some (UDPAddr ip port) \<Rightarrow> Some (ip, port) | _ \<Rightarrow> None)
      in case wb buffer arg of
           Some err \<Rightarrow> Some [EvWriteBack buffer arg]
         | None \<Rightarrow> map_option ((#) (EvWriteBack buffer arg)) (udp_pump wb isDns rs))"

text \<open>
  The creator, once the outbound connection is there: registration, installation in the
  NAT table, the first send, the wake-up of the waiters, the pump and the cleanup.
\<close>

definition np_serve ::
  "tun_env \<Rightarrow> tun2ray \<Rightarrow> nat \<Rightarrow> string \<Rightarrow> bool \<Rightarrow> conn \<Rightarrow> tun2ray outcome" where
  "np_serve env t cond natKey isDns c =
     (case PushBack c t of
        (element, t1) \<Rightarrow>
          (let t2 = t1\<lparr>udpTable := (udpTable t1)(natKey \<mapsto> c)\<rparr>;
               t3 = emit [EvGo (SendToTask natKey)] t2;
               t4 = t3\<lparr>lockTable := (lockTable t3)(StrKey natKey := None)\<rparr>;
               t5 = emit [EvBroadcast cond] t4
           in case udp_pump (writeBack_err env) isDns (readFrom_seq env c) of
                None \<Rightarrow> Blocked
              | Some evs \<Rightarrow>
                  (let t6 = emit (evs @ [EvClose (CloseConn c), EvClose CloseCloser]) t5;
                       t7 = t6\<lparr>udpTable := (udpTable t6)(natKey := None)\<rparr>
                   in Returned (Remove element t7))))"

text \<open>The creator path of \<^verbatim>\<open>NewPacket\<close>, after it has stored its condition variable.\<close>

definition np_create ::
  "tun_env \<Rightarrow> tun2ray \<Rightarrow> nat \<Rightarrow> string \<Rightarrow> destination \<Rightarrow> destination \<Rightarrow> tun2ray outcome" where
  "np_create env t cond natKey source destination =
     (let isDns = (Address_String env (Address destination) = router t);
          inb = new_inbound env source isDns
      in case np_uid env t source destination isDns inb of
           (uid, self, inb', t1) \<Rightarrow>
             (let ctx = build_ctx t isDns inb' [''quic''];
                  t2 = emit [EvDialUDP ctx destination] t1
              in case dialUDP_res env ctx destination of
                   Inl err \<Rightarrow> Returned (emit [EvLog ''[UDP] dial failed: ''] t2)
                 | Inr c \<Rightarrow>
                     if trafficStats t \<and> \<not> self \<and> \<not> isDns then
                       (case acquire_stats env uid t2 of
                          Panicked m \<Rightarrow> Panicked m
                        | Blocked \<Rightarrow> Blocked
                        | Returned t3 \<Rightarrow>
                            map_outcome (upd_stats uid (udp_flow_end (Now_Unix env)))
                              (np_serve env (upd_stats uid udp_flow_start t3) cond natKey isDns
                                 (StatsPacketConn c uid)))
                     else np_serve env t2 cond natKey isDns c))"

definition NewPacket ::
  "tun_env \<Rightarrow> tun2ray \<Rightarrow> destination \<Rightarrow> destination \<Rightarrow> bytes \<Rightarrow> tun2ray outcome" where
  "NewPacket env t source destination data =
     (let natKey = NetAddr env source in
      case sendTo env t natKey data destination of
        Panicked m \<Rightarrow> Panicked m
      | Blocked \<Rightarrow> Blocked
      | Returned (True, t1) \<Rightarrow> Returned (emit [EvClose CloseCloser] t1)
      | Returned (False, t1) \<Rightarrow>
          (case lockTable t1 (StrKey natKey) of
             Some cond \<Rightarrow>
               (case Wait env t1 of
                  None \<Rightarrow> Blocked
                | Some t2 \<Rightarrow>
                    (case sendTo env t2 natKey data destination of
                       Panicked m \<Rightarrow> Panicked m
                     | Blocked \<Rightarrow> Blocked
                     | Returned (sent, t3) \<Rightarrow> Returned (emit [EvClose CloseCloser] t3)))
           | None \<Rightarrow>
               (let cond = next_id t1;
                    t2 = t1\<lparr>lockTable := (lockTable t1)(StrKey natKey \<mapsto> cond),
                            next_id := Suc (next_id t1)\<rparr>
                in np_create env t2 cond natKey source destination)))"

subsection \<open>\<^verbatim>\<open>NewPingPacket\<close>\<close>

text \<open>
  The context the creator of a ping flow routes with, and the creator between its
  \<^verbatim>\<open>defer\<close> and its \<^verbatim>\<open>return\<close>: the choice of the handler, and with a handler the
  registration of the pseudo-connection.
\<close>

definition ping_ctx :: "tun_env \<Rightarrow> destination \<Rightarrow> destination \<Rightarrow> session_ctx" where
  "ping_ctx env source destination =
     \<lparr>ctx_inbound = new_inbound env source False,
      ctx_outbound = Some destination,
      ctx_content = Some \<lparr>SniffingRequest =
                            \<lparr>Enabled = False, RouteOnly = False,
                             OverrideDestinationForProtocol = []\<rparr>,
                          Protocol = ''ping''\<rparr>\<rparr>"

definition ping_create ::
  "tun_env \<Rightarrow> tun2ray \<Rightarrow> string \<Rightarrow> destination \<Rightarrow> destination \<Rightarrow> bool \<times> tun2ray" where
  "ping_create env t natKey source destination =
     (let ctx = ping_ctx env source destination;
          chosen =
            (case PickRoute env ctx of
               Inr tag \<Rightarrow>
                 (case GetHandler env tag of
                    Some h \<Rightarrow> (Some h, emit [EvLog ''taking detour''] t)
                  | None \<Rightarrow> (None, emit [EvLog ''non existing tag: ''] t))
             | Inl err \<Rightarrow>
                 (case defaultOutboundForPing t of
                    Some h \<Rightarrow> (Some h, emit [EvLog ''default route for ''] t)
                  | None \<Rightarrow> (None, t)))
      in case chosen of
           (None, t1) \<Rightarrow> (False, t1)
         | (Some h, t1) \<Rightarrow>
             (let c = handleUDP env ctx h destination;
                  t2 = emit [EvHandleUDP ctx h destination] t1
              in case PushBack c t2 of
                   (element, t3) \<Rightarrow>
                     (let t4 = t3\<lparr>udpTable := (udpTable t3)(natKey \<mapsto> c)\<rparr>
                      in (True, emit [EvGo (SendToTask natKey), EvGo (PingPumpTask c element)] t4))))"

definition ping_natKey :: "tun_env \<Rightarrow> destination \<Rightarrow> destination \<Rightarrow> string" where
  "ping_natKey env source destination =
     Address_String env (Address source) @ ''-'' @ Address_String env (Address destination)"

definition NewPingPacket ::
  "tun_env \<Rightarrow> tun2ray \<Rightarrow> destination \<Rightarrow> destination \<Rightarrow> bytes \<Rightarrow> (bool \<times> tun2ray) outcome" where
  "NewPingPacket env t source destination message =
     (let natKey = ping_natKey env source destination in
      case ping_sendTo env t natKey message destination of
        Panicked m \<Rightarrow> Panicked m
      | Blocked \<Rightarrow> Blocked
      | Returned (True, t1) \<Rightarrow> Returned (True, t1)
      | Returned (False, t1) \<Rightarrow>
          (case lockTable t1 (StrKey natKey) of
             Some cond \<Rightarrow>
               (case Wait env t1 of
                  None \<Rightarrow> Blocked
                | Some t2 \<Rightarrow>
                    (case ping_sendTo env t2 natKey message destination of
                       Panicked m \<Rightarrow> Panicked m
                     | Blocked \<Rightarrow> Blocked
                     | Returned (sent, t3) \<Rightarrow> Returned (True, t3)))
           | None \<Rightarrow>
               (let cond = next_id t1;
                    t2 = t1\<lparr>lockTable := (lockTable t1)(StrKey natKey \<mapsto> cond),
                            next_id := Suc (next_id t1)\<rparr>
                in case ping_create env t2 natKey source destination of
                     (r, t3) \<Rightarrow>
                       Returned (r, emit [EvBroadcast cond]
                                      (t3\<lparr>lockTable := (lockTable t3)(StrKey natKey := None)\<rparr>)))))"

section \<open>Sample inputs\<close>

text \<open>
  A dispatcher with uid attribution and traffic statistics on and nothing in its tables, two
  endpoints, and collaborators that answer the same way every time: the uid dumper gives
  \<open>u\<close>, the dispatch fails, the router finds no route.
\<close>

definition sample_source :: destination where
  "sample_source = \<lparr>Address = IPAddress [10, 0, 0, 1], Port = 40000, Network = Network_TCP\<rparr>"

definition sample_destination :: destination where
  "sample_destination = \<lparr>Address = IPAddress [1, 1, 1, 1], Port = 80, Network = Network_TCP\<rparr>"

definition sample_tun :: tun2ray where
  "sample_tun =
     \<lparr>router = ''10.0.0.2'', sniffing = False, overrideDestination = False, debug = False,
      dumpUid = True, trafficStats = True, udpTable = Map.empty, appStatsTable = Map.empty,
      lockTable = Map.empty, connections = [], defaultOutboundForPing = None,
      next_id = 0, events = []\<rparr>"

definition sample_env :: "32 word \<Rightarrow> tun_env" where
  "sample_env u =
     \<lparr>networkType = ''wifi'', wifiSSID = ''home'',
      ip_String = (\<lambda>ip. ''ip''), port_String = (\<lambda>p. ''port''),
      DumpUid = (\<lambda>ipv6 udp sip sport dip dport. Inr u),
      GetUidInfo = (\<lambda>uid. None), Getuid = 10123,
      Wait = (\<lambda>t. None),
      DispatchLink_err = (\<lambda>ctx d. Some (ExternalError ''closed'')),
      copy_err = None, Now_Unix = 1700000000,
      WriteTo_err = (\<lambda>c data. None),
      dialUDP_res = (\<lambda>ctx d. Inr (Conn 1)),
      readFrom_seq = (\<lambda>c. [Inl (ExternalError ''EOF'')]),
      writeBack_err = (\<lambda>buffer addr. None),
      PickRoute = (\<lambda>ctx. Inl (ExternalError ''no route'')),
      GetHandler = (\<lambda>tag. None),
      handleUDP = (\<lambda>ctx h d. Conn 2)\<rparr>"

definition sample_xz_env :: "error option \<Rightarrow> xz_env" where
  "sample_xz_env e =
     \<lparr>Open_err = None, NewReader_err = None, Create_err = None,
      Copy_written = [1, 2], Copy_err = e, Rename_err = None\<rparr>"

definition sample_fs :: fs_state where
  "sample_fs = \<lparr>files = [''a.xz'' \<mapsto> [9, 9, 9]], fs_trace = []\<rparr>"

section \<open>Properties of the decompression utility\<close>

lemma files_fs_emit [simp]: "files (fs_emit es s) = files s"
  by (simp add: fs_emit_def)

lemma fs_trace_fs_emit [simp]: "fs_trace (fs_emit es s) = fs_trace s @ es"
  by (simp add: fs_emit_def)

text \<open>
  C6. \<^verbatim>\<open>unxz(path)\<close> decompresses into \<open>path @ ''.tmp''\<close> and renames the temporary file
  over \<open>path\<close> only after the decompression has succeeded to its end. Whenever \<^verbatim>\<open>unxz\<close>
  returns an error, it has renamed nothing and the file at \<open>path\<close> is what it was; when it
  returns no error, the copy had no error, the calls were open, create, copy, the two
  closes and the rename, in this order, and \<open>path\<close> holds the decompressed bytes. When the
  decompression fails in mid-stream, the error returned is that of the copy, and the bytes
  written so far are in the temporary file.
\<close>

theorem unxz_renames_only_after_success:
  assumes "unxz env s path = (r, s')"
  shows "(r \<noteq> None \<longrightarrow>
            files s' path = files s path
          \<and> (\<forall>a b. FsRename a b \<notin> set (drop (length (fs_trace s)) (fs_trace s'))))
       \<and> (r = None \<longrightarrow>
            Copy_err env = None
          \<and> files s' path = Some (Copy_written env)
          \<and> drop (length (fs_trace s)) (fs_trace s') =
              [FsOpen path, FsCreate (path @ ''.tmp''), FsCopy, FsClose path,
               FsClose (path @ ''.tmp''), FsRename (path @ ''.tmp'') path])
       \<and> (files s path \<noteq> None \<and> Open_err env = None \<and> NewReader_err env = None
            \<and> Create_err env = None \<and> Copy_err env \<noteq> None \<longrightarrow>
            r = Copy_err env
          \<and> files s' (path @ ''.tmp'') = Some (Copy_written env))"
  using assms
  by (auto simp: unxz_def Unxz_def os_Open_def os_Create_def file_write_def os_Rename_def Let_def
      split: option.splits prod.splits)

theorem unxz_renames_only_after_success_witness:
  "fst (unxz (sample_xz_env (Some (ExternalError ''unexpected EOF''))) sample_fs ''a.xz'')
     = Some (ExternalError ''unexpected EOF'')
   \<and> files (snd (unxz (sample_xz_env (Some (ExternalError ''unexpected EOF''))) sample_fs ''a.xz'')) ''a.xz''
     = Some [9, 9, 9]
   \<and> files (snd (unxz (sample_xz_env (Some (ExternalError ''unexpected EOF''))) sample_fs ''a.xz'')) ''a.xz.tmp''
     = Some [1, 2]
   \<and> fst (unxz (sample_xz_env None) sample_fs ''a.xz'') = None
   \<and> files (snd (unxz (sample_xz_env None) sample_fs ''a.xz'')) ''a.xz'' = Some [1, 2]"
proof -
  let ?bad = "sample_xz_env (Some (ExternalError ''unexpected EOF''))"
  have bad: "unxz ?bad sample_fs ''a.xz'' =
      (fst (unxz ?bad sample_fs ''a.xz''), snd (unxz ?bad sample_fs ''a.xz''))"
    by simp
  have good: "unxz (sample_xz_env None) sample_fs ''a.xz'' =
      (fst (unxz (sample_xz_env None) sample_fs ''a.xz''),
       snd (unxz (sample_xz_env None) sample_fs ''a.xz''))"
    by simp
  have r_bad: "fst (unxz ?bad sample_fs ''a.xz'') = Some (ExternalError ''unexpected EOF'')"
    by (simp add: unxz_def Unxz_def os_Open_def sample_xz_env_def sample_fs_def Let_def)
  have r_good: "fst (unxz (sample_xz_env None) sample_fs ''a.xz'') = None"
    by (simp add: unxz_def Unxz_def os_Open_def os_Create_def file_write_def os_Rename_def
        sample_xz_env_def sample_fs_def Let_def)
  show ?thesis
    using unxz_renames_only_after_success [OF bad] unxz_renames_only_after_success [OF good]
      r_bad r_good
    by (simp add: sample_xz_env_def sample_fs_def)
qed

text \<open>
  C10. The exported \<^verbatim>\<open>Unxz(archive, path)\<close> creates the output file at \<open>path\<close>, truncating
  what was there, before it starts to copy. When the decompression fails in mid-stream,
  \<^verbatim>\<open>Unxz\<close> returns the error of the copy and the file at \<open>path\<close> exists and holds the bytes
  written before the failure, whatever \<open>path\<close> held before; \<^verbatim>\<open>Unxz\<close> writes to \<open>path\<close>
  itself and renames nothing.
\<close>

theorem Unxz_leaves_partial_output:
  assumes "files s archive \<noteq> None" and "Open_err env = None" and "NewReader_err env = None"
    and "Create_err env = None" and "Copy_err env = Some e"
  shows "fst (Unxz env s archive path) = Some e
       \<and> files (snd (Unxz env s archive path)) path = Some (Copy_written env)
       \<and> fs_trace (snd (Unxz env s archive path)) =
           fs_trace s @ [FsOpen archive, FsCreate path, FsCopy, FsClose archive, FsClose path]"
  using assms
  by (auto simp: Unxz_def os_Open_def os_Create_def file_write_def Let_def)

theorem Unxz_leaves_partial_output_witness:
  "files sample_fs ''a.xz'' \<noteq> None
   \<and> fst (Unxz (sample_xz_env (Some (ExternalError ''unexpected EOF''))) sample_fs ''a.xz'' ''a'')
     = Some (ExternalError ''unexpected EOF'')
   \<and> files (snd (Unxz (sample_xz_env (Some (ExternalError ''unexpected EOF''))) sample_fs ''a.xz'' ''a'')) ''a''
     = Some [1, 2]"
  using Unxz_leaves_partial_output [of sample_fs "''a.xz''"
      "sample_xz_env (Some (ExternalError ''unexpected EOF''))"
      "ExternalError ''unexpected EOF''" "''a''"]
  by (simp add: sample_xz_env_def sample_fs_def)

section \<open>Properties of the protected dialer\<close>

lemma open_fds_sys_emit [simp]: "open_fds (sys_emit es s) = open_fds s"
  by (simp add: sys_emit_def)

lemma sys_trace_sys_emit [simp]: "sys_trace (sys_emit es s) = sys_trace s @ es"
  by (simp add: sys_emit_def)

text \<open>
  Whenever the socket is there, the protector accepts it and \<^verbatim>\<open>connect\<close> fails, \<^verbatim>\<open>dial\<close>
  returns the error of \<^verbatim>\<open>connect\<close> and the descriptor is still open: it has closed
  nothing.
\<close>

lemma dial_connect_error_keeps_fd_open:
  assumes "Address d = IPAddress ip" and "Network d \<noteq> Network_Unknown"
    and "Socket_res env = Inr fd" and "Protect_res env" and "Connect_err env = Some e"
  shows "\<exists>s'. dial env s d so = Returned (Inl e, s') \<and> fd \<in> open_fds s'
           \<and> (\<forall>x. SysClose x \<notin> set (drop (length (sys_trace s)) (sys_trace s')))"
  using assms
  by (cases "Network d") (auto simp: dial_def getFd_def unix_Socket_def Let_def)

text \<open>
  C2. The spec has \<^verbatim>\<open>dial\<close> close the descriptor when \<^verbatim>\<open>connect\<close> fails. A TCP dial to
  127.0.0.1:80 whose \<^verbatim>\<open>connect\<close> is refused, with descriptor 7 from \<^verbatim>\<open>socket\<close>: the
  error is returned, descriptor 7 is still among the open ones, and the calls made are
  \<^verbatim>\<open>socket\<close>, \<^verbatim>\<open>Protect\<close> and \<^verbatim>\<open>connect\<close>, with no close.
\<close>

theorem dial_connect_refused_leaves_fd_open:
  "dial \<lparr>Socket_res = Inr 7, Protect_res = True,
         Connect_err = Some (ExternalError ''connection refused''),
         FileConn_res = Inr 8, ResolveUDPAddr_err = None\<rparr>
        \<lparr>open_fds = {}, sys_trace = []\<rparr>
        \<lparr>Address = IPAddress [127, 0, 0, 1], Port = 80, Network = Network_TCP\<rparr> False
   = Returned (Inl (ExternalError ''connection refused''),
        \<lparr>open_fds = {7},
         sys_trace = [SysSocket AF_INET SOCK_STREAM IPPROTO_TCP 7, SysProtect 7,
                      SysConnect 7 (SockaddrInet4 80 [127, 0, 0, 1])]\<rparr>)"
  by (simp add: dial_def getFd_def unix_Socket_def sys_emit_def copy_into_def Let_def)

section \<open>Properties of the local DNS lookup hook\<close>

lemma strings_Split_nonempty: "strings_Split s c \<noteq> []"
  by (induction s) (auto split: list.splits)

text \<open>
  \<^verbatim>\<open>strings.Split\<close> gives at least one piece, so the list of addresses is never empty and
  the branch that returns \<^verbatim>\<open>ErrEmptyResponse\<close> is never taken.
\<close>

lemma lookupFunc_never_empty_response:
  assumes "LookupIP env network host = Inr response"
  shows "\<exists>ips. lookupFunc env network host = Returned (Inr ips) \<and> ips \<noteq> []"
  using assms strings_Split_nonempty [of response "CHR '',''"]
  by (simp add: lookupFunc_def Let_def)

text \<open>
  C7. The spec has an empty answer of the resolver fail with \<^verbatim>\<open>EmptyDnsResponse\<close>. On
  the empty string, which holds no address, the hook returns without error the list of one
  nil address.
\<close>

theorem lookupFunc_empty_response_gives_nil_address:
  "lookupFunc \<lparr>LookupIP = (\<lambda>network host. Inr ''''), Atoi = (\<lambda>w. 0), ParseIP = (\<lambda>a. None)\<rparr>
     ''ip'' ''example.com'' = Returned (Inr [None])"
  by (simp add: lookupFunc_def Let_def)

section \<open>Properties of the fast-path send\<close>

lemma emit_emit [simp]: "emit es (emit ds t) = emit (ds @ es) t"
  by (simp add: emit_def)

text \<open>
  C3. The fast-path send of \<^verbatim>\<open>NewPacket\<close> and of \<^verbatim>\<open>NewPingPacket\<close>: when the key is
  absent from the NAT table it returns false and leaves the dispatcher as it is, with
  nothing written; when the key is present (and the destination is an IP address) it
  writes the payload to the destination address through the connection of the key and
  returns true; when that write fails it closes the connection and still returns true.
\<close>

theorem sendTo_fast_path:
  "(udpTable t natKey = None \<longrightarrow>
      sendTo env t natKey data d = Returned (False, t)
    \<and> ping_sendTo env t natKey data d = Returned (False, t))
 \<and> (udpTable t natKey = Some c \<and> Address d = IPAddress ip \<and> WriteTo_err env c data = None \<longrightarrow>
      sendTo env t natKey data d = Returned (True, emit [EvWriteTo c data ip (unat (Port d))] t)
    \<and> ping_sendTo env t natKey data d = Returned (True, emit [EvWriteTo c data ip (unat (Port d))] t))
 \<and> (udpTable t natKey = Some c \<and> Address d = IPAddress ip \<and> WriteTo_err env c data \<noteq> None \<longrightarrow>
      sendTo env t natKey data d =
        Returned (True, emit [EvWriteTo c data ip (unat (Port d)), EvClose (CloseConn c)] t)
    \<and> ping_sendTo env t natKey data d =
        Returned (True, emit [EvWriteTo c data ip (unat (Port d)), EvClose (CloseConn c),
                              EvLog ''failed to write ping request to ''] t))"
  by (auto simp: sendTo_def ping_sendTo_def Let_def)

theorem sendTo_fast_path_witness:
  "sendTo (sample_env 0) sample_tun ''k'' [1] sample_destination = Returned (False, sample_tun)
 \<and> ping_sendTo (sample_env 0) sample_tun ''k'' [1] sample_destination = Returned (False, sample_tun)
 \<and> sendTo (sample_env 0) (sample_tun\<lparr>udpTable := [''k'' \<mapsto> Conn 5]\<rparr>) ''k'' [1] sample_destination
     = Returned (True, emit [EvWriteTo (Conn 5) [1] [1, 1, 1, 1] 80]
                         (sample_tun\<lparr>udpTable := [''k'' \<mapsto> Conn 5]\<rparr>))
 \<and> sendTo ((sample_env 0)\<lparr>WriteTo_err := (\<lambda>c data. Some (ExternalError ''closed''))\<rparr>)
      (sample_tun\<lparr>udpTable := [''k'' \<mapsto> Conn 5]\<rparr>) ''k'' [1] sample_destination
     = Returned (True, emit [EvWriteTo (Conn 5) [1] [1, 1, 1, 1] 80, EvClose (CloseConn (Conn 5))]
                         (sample_tun\<lparr>udpTable := [''k'' \<mapsto> Conn 5]\<rparr>))"
  using sendTo_fast_path [of sample_tun "''k''" "sample_env 0" "[1]" sample_destination]
    sendTo_fast_path [of "sample_tun\<lparr>udpTable := [''k'' \<mapsto> Conn 5]\<rparr>" "''k''" "sample_env 0"
      "[1]" sample_destination "Conn 5" "[1, 1, 1, 1]"]
    sendTo_fast_path [of "sample_tun\<lparr>udpTable := [''k'' \<mapsto> Conn 5]\<rparr>" "''k''"
      "(sample_env 0)\<lparr>WriteTo_err := (\<lambda>c data. Some (ExternalError ''closed''))\<rparr>"
      "[1]" sample_destination "Conn 5" "[1, 1, 1, 1]"]
  by (simp add: sample_tun_def sample_env_def sample_destination_def)

section \<open>Properties of the per-application counters\<close>


















section \<open>Properties of the attribution to a uid\<close>

lemma unat_ucast_32_16: "unat (ucast (u :: 32 word) :: 16 word) = unat u mod 65536"
  by (simp add: unsigned_ucast_eq take_bit_eq_mod)

lemma unat_ucast_16_32: "unat (ucast (w :: 16 word) :: 32 word) = unat w"
proof -
  have "unat w < 2 ^ 16" using unsigned_less [of w] by simp
  then have "unat w < 2 ^ 32" by simp
  then show ?thesis by (simp add: unsigned_ucast_eq take_bit_nat_eq_self)
qed

text \<open>The uid that both handlers record for a dumped value \<open>u\<close>, and their test for self.\<close>

lemma recorded_uid_unat:
  fixes u :: "32 word"
  shows "unat (ucast (if (ucast u :: 16 word) < 10000 then 1000 else (ucast u :: 16 word)) :: 32 word)
           = (if 10000 \<le> unat u mod 65536 then unat u mod 65536 else 1000)"
  by (simp add: unat_ucast_16_32 unat_ucast_32_16 word_less_nat_alt)

lemma self_test_unat:
  fixes u :: "32 word"
  shows "((ucast u :: 16 word) > 0 \<and> uint (ucast u :: 16 word) = g)
           = (0 < unat u mod 65536 \<and> int (unat u mod 65536) = g)"
  by (simp add: word_less_nat_alt uint_nat unat_ucast_32_16)

lemma nc_uid_dumped:
  assumes "dumpUid t \<or> trafficStats t"
    and "Address source = IPAddress sip" and "Address destination = IPAddress dip"
    and "DumpUid env (IsIPv6 (Address destination)) False (ip_String env sip) (ucast (Port source))
           (ip_String env dip) (ucast (Port destination)) = Inr u"
  shows "\<exists>t'. nc_uid env t source destination inb =
           Returned (if (ucast u :: 16 word) < 10000 then 1000 else ucast u,
                     (ucast u :: 16 word) > 0 \<and> uint (ucast u :: 16 word) = Getuid env,
                     inb\<lparr>Uid := ucast (if (ucast u :: 16 word) < 10000 then 1000 else (ucast u :: 16 word))\<rparr>,
                     t')"
  using assms by (simp add: nc_uid_def Let_def)

lemma np_uid_dumped:
  assumes "dumpUid t \<or> trafficStats t"
    and "DumpUid env (IsIPv6 (Address source)) True
           (Address_String env (Address source)) (ucast (Port source))
           (Address_String env (Address destination)) (ucast (Port destination)) = Inr u"
  shows "\<exists>t'. np_uid env t source destination isDns inb =
           (if (ucast u :: 16 word) < 10000 then 1000 else ucast u,
            (ucast u :: 16 word) > 0 \<and> uint (ucast u :: 16 word) = Getuid env,
            inb\<lparr>Uid := ucast (if (ucast u :: 16 word) < 10000 then 1000 else (ucast u :: 16 word))\<rparr>,
            t')"
  using assms by (simp add: np_uid_def Let_def)

text \<open>
  C9. The uid that \<^verbatim>\<open>DumpUid\<close> returns is cut to 16 bits before it is normalised: for
  every dumped value \<open>u\<close>, \<^verbatim>\<open>NewConnection\<close> and \<^verbatim>\<open>NewPacket\<close> record in \<^verbatim>\<open>inbound.Uid\<close>
  the remainder of \<open>u\<close> modulo 65536 when that remainder is at least 10000, and 1000
  otherwise; the test for the process's own connections compares that remainder, too, with
  the uid of the process.
\<close>

theorem uid_truncated_to_16_bits:
  assumes "dumpUid t \<or> trafficStats t"
  shows "(Address source = IPAddress sip \<and> Address destination = IPAddress dip
          \<and> DumpUid env (IsIPv6 (Address destination)) False (ip_String env sip)
               (ucast (Port source)) (ip_String env dip) (ucast (Port destination)) = Inr u \<longrightarrow>
            (case nc_uid env t source destination inb of
               Returned (uid, self, inb', t') \<Rightarrow>
                 unat (Uid inb') = (if 10000 \<le> unat u mod 65536 then unat u mod 65536 else 1000)
               \<and> self = (0 < unat u mod 65536 \<and> int (unat u mod 65536) = Getuid env)
             | Panicked m \<Rightarrow> False
             | Blocked \<Rightarrow> False))
       \<and> (DumpUid env (IsIPv6 (Address source)) True (Address_String env (Address source))
               (ucast (Port source)) (Address_String env (Address destination))
               (ucast (Port destination)) = Inr u \<longrightarrow>
            (case np_uid env t source destination isDns inb of
               (uid, self, inb', t') \<Rightarrow>
                 unat (Uid inb') = (if 10000 \<le> unat u mod 65536 then unat u mod 65536 else 1000)
               \<and> self = (0 < unat u mod 65536 \<and> int (unat u mod 65536) = Getuid env)))"
proof (intro conjI impI)
  assume a: "Address source = IPAddress sip \<and> Address destination = IPAddress dip
          \<and> DumpUid env (IsIPv6 (Address destination)) False (ip_String env sip)
               (ucast (Port source)) (ip_String env dip) (ucast (Port destination)) = Inr u"
  from nc_uid_dumped [OF assms, of source sip destination dip env u inb] a
  obtain t' where "nc_uid env t source destination inb =
           Returned (if (ucast u :: 16 word) < 10000 then 1000 else ucast u,
                     (ucast u :: 16 word) > 0 \<and> uint (ucast u :: 16 word) = Getuid env,
                     inb\<lparr>Uid := ucast (if (ucast u :: 16 word) < 10000 then 1000 else (ucast u :: 16 word))\<rparr>,
                     t')"
    by blast
  then show "case nc_uid env t source destination inb of
               Returned (uid, self, inb', t') \<Rightarrow>
                 unat (Uid inb') = (if 10000 \<le> unat u mod 65536 then unat u mod 65536 else 1000)
               \<and> self = (0 < unat u mod 65536 \<and> int (unat u mod 65536) = Getuid env)
             | Panicked m \<Rightarrow> False
             | Blocked \<Rightarrow> False"
    using recorded_uid_unat [of u] self_test_unat [of u "Getuid env"] by simp
next
  assume a: "DumpUid env (IsIPv6 (Address source)) True (Address_String env (Address source))
               (ucast (Port source)) (Address_String env (Address destination))
               (ucast (Port destination)) = Inr u"
  from np_uid_dumped [OF assms a, of isDns inb]
  obtain t' where "np_uid env t source destination isDns inb =
           (if (ucast u :: 16 word) < 10000 then 1000 else ucast u,
            (ucast u :: 16 word) > 0 \<and> uint (ucast u :: 16 word) = Getuid env,
            inb\<lparr>Uid := ucast (if (ucast u :: 16 word) < 10000 then 1000 else (ucast u :: 16 word))\<rparr>,
            t')"
    by blast
  then show "case np_uid env t source destination isDns inb of
               (uid, self, inb', t') \<Rightarrow>
                 unat (Uid inb') = (if 10000 \<le> unat u mod 65536 then unat u mod 65536 else 1000)
               \<and> self = (0 < unat u mod 65536 \<and> int (unat u mod 65536) = Getuid env)"
    using recorded_uid_unat [of u] self_test_unat [of u "Getuid env"] by simp
qed

theorem uid_truncated_to_16_bits_witness:
  "(case nc_uid (sample_env 75578) sample_tun sample_source sample_destination
           (new_inbound (sample_env 75578) sample_source False) of
      Returned (uid, self, inb', t') \<Rightarrow> unat (Uid inb') = 10042 \<and> \<not> self
    | Panicked m \<Rightarrow> False
    | Blocked \<Rightarrow> False)
 \<and> (case np_uid (sample_env 75659) sample_tun sample_source sample_destination False
           (new_inbound (sample_env 75659) sample_source False) of
      (uid, self, inb', t') \<Rightarrow> unat (Uid inb') = 10123 \<and> self)"
  using uid_truncated_to_16_bits [of sample_tun sample_source "[10, 0, 0, 1]" sample_destination
      "[1, 1, 1, 1]" "sample_env 75578" 75578 "new_inbound (sample_env 75578) sample_source False" False]
    uid_truncated_to_16_bits [of sample_tun sample_source "[10, 0, 0, 1]" sample_destination
      "[1, 1, 1, 1]" "sample_env 75659" 75659 "new_inbound (sample_env 75659) sample_source False" False]
  by (simp add: sample_tun_def sample_env_def sample_source_def sample_destination_def
      nc_uid_def np_uid_def new_inbound_def IsIPv6_def Address_String_def Let_def)

text \<open>
  C5, as the spec has it, records a dumped uid of at least 10000 unchanged. The uid dumper
  answers 75578, which is 65536 + 10042: \<^verbatim>\<open>NewConnection\<close> records 10042.
\<close>

theorem dumped_uid_75578_recorded_as_10042:
  "nc_uid (sample_env 75578) sample_tun sample_source sample_destination
       (new_inbound (sample_env 75578) sample_source False)
     = Returned (10042, False,
                 (new_inbound (sample_env 75578) sample_source False)\<lparr>Uid := 10042\<rparr>,
                 sample_tun)
   \<and> (10000 :: 32 word) \<le> 75578 \<and> (10042 :: 32 word) \<noteq> 75578"
  by (simp add: nc_uid_def sample_tun_def sample_env_def sample_source_def
      sample_destination_def Let_def)

lemma recorded_uid_small:
  fixes u :: "32 word"
  assumes "unat u < 65536"
  shows "(ucast (if (ucast u :: 16 word) < 10000 then 1000 else (ucast u :: 16 word)) :: 32 word)
           = (if u < 10000 then 1000 else u)"
proof -
  have "unat (ucast (if (ucast u :: 16 word) < 10000 then 1000 else (ucast u :: 16 word)) :: 32 word)
          = unat (if u < 10000 then 1000 else u)"
    using assms by (simp only: recorded_uid_unat) (simp add: word_less_nat_alt)
  then show ?thesis by (simp only: word_unat_eq_iff)
qed

text \<open>
  C5, amended. Whenever the uid dumper succeeds with a uid below 65536, \<^verbatim>\<open>NewConnection\<close>
  and \<^verbatim>\<open>NewPacket\<close> record 1000 in \<^verbatim>\<open>inbound.Uid\<close> for a dumped uid below 10000, and a
  dumped uid of at least 10000 unchanged.
\<close>

theorem uid_normalised_below_65536:
  assumes "dumpUid t \<or> trafficStats t" and "unat u < 65536"
  shows "(Address source = IPAddress sip \<and> Address destination = IPAddress dip
          \<and> DumpUid env (IsIPv6 (Address destination)) False (ip_String env sip)
               (ucast (Port source)) (ip_String env dip) (ucast (Port destination)) = Inr u \<longrightarrow>
            (case nc_uid env t source destination inb of
               Returned (uid, self, inb', t') \<Rightarrow> Uid inb' = (if u < 10000 then 1000 else u)
             | Panicked m \<Rightarrow> False
             | Blocked \<Rightarrow> False))
       \<and> (DumpUid env (IsIPv6 (Address source)) True (Address_String env (Address source))
               (ucast (Port source)) (Address_String env (Address destination))
               (ucast (Port destination)) = Inr u \<longrightarrow>
            (case np_uid env t source destination isDns inb of
               (uid, self, inb', t') \<Rightarrow> Uid inb' = (if u < 10000 then 1000 else u)))"
proof (intro conjI impI)
  assume a: "Address source = IPAddress sip \<and> Address destination = IPAddress dip
          \<and> DumpUid env (IsIPv6 (Address destination)) False (ip_String env sip)
               (ucast (Port source)) (ip_String env dip) (ucast (Port destination)) = Inr u"
  from nc_uid_dumped [OF assms(1), of source sip destination dip env u inb] a
  obtain t' where "nc_uid env t source destination inb =
           Returned (if (ucast u :: 16 word) < 10000 then 1000 else ucast u,
                     (ucast u :: 16 word) > 0 \<and> uint (ucast u :: 16 word) = Getuid env,
                     inb\<lparr>Uid := ucast (if (ucast u :: 16 word) < 10000 then 1000 else (ucast u :: 16 word))\<rparr>,
                     t')"
    by blast
  then show "case nc_uid env t source destination inb of
               Returned (uid, self, inb', t') \<Rightarrow> Uid inb' = (if u < 10000 then 1000 else u)
             | Panicked m \<Rightarrow> False
             | Blocked \<Rightarrow> False"
    using recorded_uid_small [OF assms(2)] by simp
next
  assume a: "DumpUid env (IsIPv6 (Address source)) True (Address_String env (Address source))
               (ucast (Port source)) (Address_String env (Address destination))
               (ucast (Port destination)) = Inr u"
  from np_uid_dumped [OF assms(1) a, of isDns inb]
  obtain t' where "np_uid env t source destination isDns inb =
           (if (ucast u :: 16 word) < 10000 then 1000 else ucast u,
            (ucast u :: 16 word) > 0 \<and> uint (ucast u :: 16 word) = Getuid env,
            inb\<lparr>Uid := ucast (if (ucast u :: 16 word) < 10000 then 1000 else (ucast u :: 16 word))\<rparr>,
            t')"
    by blast
  then show "case np_uid env t source destination isDns inb of
               (uid, self, inb', t') \<Rightarrow> Uid inb' = (if u < 10000 then 1000 else u)"
    using recorded_uid_small [OF assms(2)] by simp
qed

theorem uid_normalised_below_65536_witness:
  "(case nc_uid (sample_env 42) sample_tun sample_source sample_destination
           (new_inbound (sample_env 42) sample_source False) of
      Returned (uid, self, inb', t') \<Rightarrow> Uid inb' = 1000
    | Panicked m \<Rightarrow> False
    | Blocked \<Rightarrow> False)
 \<and> (case nc_uid (sample_env 10042) sample_tun sample_source sample_destination
           (new_inbound (sample_env 10042) sample_source False) of
      Returned (uid, self, inb', t') \<Rightarrow> Uid inb' = 10042
    | Panicked m \<Rightarrow> False
    | Blocked \<Rightarrow> False)
 \<and> (case np_uid (sample_env 42) sample_tun sample_source sample_destination False
           (new_inbound (sample_env 42) sample_source False) of
      (uid, self, inb', t') \<Rightarrow> Uid inb' = 1000)
 \<and> (case np_uid (sample_env 10042) sample_tun sample_source sample_destination False
           (new_inbound (sample_env 10042) sample_source False) of
      (uid, self, inb', t') \<Rightarrow> Uid inb' = 10042)"
  using uid_normalised_below_65536 [of sample_tun 42 sample_source "[10, 0, 0, 1]" sample_destination
      "[1, 1, 1, 1]" "sample_env 42" "new_inbound (sample_env 42) sample_source False" False]
    uid_normalised_below_65536 [of sample_tun 10042 sample_source "[10, 0, 0, 1]" sample_destination
      "[1, 1, 1, 1]" "sample_env 10042" "new_inbound (sample_env 10042) sample_source False" False]
  by (simp add: sample_tun_def sample_env_def sample_source_def sample_destination_def
      nc_uid_def np_uid_def new_inbound_def IsIPv6_def Address_String_def Let_def)

section \<open>Properties of the connection list and of the handlers\<close>

lemma emit_fields [simp]:
  "events (emit es t) = events t @ es"
  "connections (emit es t) = connections t"
  "udpTable (emit es t) = udpTable t"
  "lockTable (emit es t) = lockTable t"
  "appStatsTable (emit es t) = appStatsTable t"
  "next_id (emit es t) = next_id t"
  "defaultOutboundForPing (emit es t) = defaultOutboundForPing t"
  by (simp_all add: emit_def)

lemma upd_stats_fields [simp]:
  "events (upd_stats uid f t) = events t"
  "connections (upd_stats uid f t) = connections t"
  by (simp_all add: upd_stats_def split: option.splits)

lemma Close_fields:
  "connections (Close t) = connections t"
  "events (Close t) = events t @ EvClose CloseDev # map (\<lambda>e. EvClose (CloseConn (snd e))) (connections t)"
  by (simp_all add: Close_def)

text \<open>When the dispatch fails, \<^verbatim>\<open>NewConnection\<close> ends with the connection appended to the list.\<close>

lemma nc_dispatch_error:
  assumes "DispatchLink_err env ctx destination \<noteq> None"
  shows "connections (nc_dispatch env t ctx destination c) = connections t @ [(next_id t, c)]"
    and "events (nc_dispatch env t ctx destination c) =
           events t @ [EvDispatchLink ctx destination, EvLog ''[TCP] dispatchLink failed: '']"
  using assms by (auto simp: nc_dispatch_def PushBack_def Let_def)

lemma nc_uid_frame:
  assumes "nc_uid env t source destination inb = Returned (uid, self, inb', t1)"
  shows "connections t1 = connections t \<and> lockTable t1 = lockTable t
       \<and> (\<exists>ls. events t1 = events t @ ls \<and> (\<forall>x. EvClose x \<notin> set ls))"
  using assms
  by (auto simp: nc_uid_def Let_def split: if_splits address.splits sum.splits)

lemma acquire_stats_frame:
  assumes "acquire_stats env uid t = Returned t2" and "lockTable t (UidKey uid) = None"
  shows "connections t2 = connections t
       \<and> (\<exists>ls. events t2 = events t @ ls \<and> (\<forall>x. EvClose x \<notin> set ls))"
  using assms
  by (auto simp: acquire_stats_def Let_def split: option.splits)

lemma Close_closes_registered:
  assumes "(tok, c) \<in> set (connections t)"
  shows "EvClose (CloseConn c) \<in> set (drop (length (events t)) (events (Close t)))"
proof -
  have "EvClose (CloseConn (snd (tok, c))) \<in> (\<lambda>e. EvClose (CloseConn (snd e))) ` set (connections t)"
    using assms by (rule imageI)
  then show ?thesis by (simp add: Close_fields)
qed

lemma NewConnection_dispatch_error_shape:
  assumes run: "NewConnection env t source destination c = Returned t'"
    and fail: "\<forall>ctx. DispatchLink_err env ctx destination \<noteq> None"
  shows "\<exists>(tX :: tun2ray) c' ctx.
           (c' = c \<or> (\<exists>uid. c' = StatsConn c uid))
         \<and> connections t' = connections tX @ [(next_id tX, c')]
         \<and> events t' = events tX @ [EvDispatchLink ctx destination,
                                     EvLog ''[TCP] dispatchLink failed: '']
         \<and> ((\<forall>k. lockTable t k = None) \<longrightarrow>
               connections tX = connections t
             \<and> (\<exists>ls. events tX = events t @ ls \<and> (\<forall>x. EvClose x \<notin> set ls)))"
proof -
  define isDns where "isDns = (Address_String env (Address destination) = router t)"
  define inb where "inb = new_inbound env source isDns"
  from run obtain uid self inb' t1
    where u: "nc_uid env t source destination inb = Returned (uid, self, inb', t1)"
    by (auto simp: NewConnection_def Let_def isDns_def inb_def split: outcome.splits)
  define ctx where "ctx = build_ctx t isDns inb' [''http'', ''tls'']"
  from fail have f: "DispatchLink_err env ctx destination \<noteq> None" by simp
  note fr1 = nc_uid_frame [OF u]
  show ?thesis
  proof (cases "trafficStats t \<and> \<not> self \<and> \<not> isDns")
    case False
    with run u have t': "t' = nc_dispatch env t1 ctx destination c"
      by (auto simp: NewConnection_def Let_def isDns_def inb_def ctx_def)
    have c1: "connections t' = connections t1 @ [(next_id t1, c)]"
      and e1: "events t' = events t1 @ [EvDispatchLink ctx destination,
                                        EvLog ''[TCP] dispatchLink failed: '']"
      using nc_dispatch_error [OF f] by (simp_all add: t')
    have body: "(c = c \<or> (\<exists>uid. c = StatsConn c uid))
         \<and> connections t' = connections t1 @ [(next_id t1, c)]
         \<and> events t' = events t1 @ [EvDispatchLink ctx destination,
                                     EvLog ''[TCP] dispatchLink failed: '']
         \<and> ((\<forall>k. lockTable t k = None) \<longrightarrow>
               connections t1 = connections t
             \<and> (\<exists>ls. events t1 = events t @ ls \<and> (\<forall>x. EvClose x \<notin> set ls)))"
      using c1 e1 fr1 by simp
    show ?thesis
      by (rule exI [of _ t1], rule exI [of _ c], rule exI [of _ ctx]) (rule body)
  next
    case True
    with run u obtain t2 where a: "acquire_stats env uid t1 = Returned t2"
      and t': "t' = upd_stats uid (tcp_flow_end (Now_Unix env))
                      (nc_dispatch env (upd_stats uid tcp_flow_start t2) ctx destination
                         (StatsConn c uid))"
      by (auto simp: NewConnection_def Let_def isDns_def inb_def ctx_def split: outcome.splits)
    define tX where "tX = upd_stats uid tcp_flow_start t2"
    have c1: "connections t' = connections tX @ [(next_id tX, StatsConn c uid)]"
      and e1: "events t' = events tX @ [EvDispatchLink ctx destination,
                                        EvLog ''[TCP] dispatchLink failed: '']"
      using nc_dispatch_error [OF f] by (simp_all add: t' tX_def)
    have nw: "(\<forall>k. lockTable t k = None) \<longrightarrow>
            connections tX = connections t
          \<and> (\<exists>ls. events tX = events t @ ls \<and> (\<forall>x. EvClose x \<notin> set ls))"
    proof
      assume "\<forall>k. lockTable t k = None"
      with fr1 have "lockTable t1 (UidKey uid) = None" by simp
      from acquire_stats_frame [OF a this] obtain ls2
        where c2: "connections t2 = connections t1"
          and e2: "events t2 = events t1 @ ls2" and n2: "\<forall>x. EvClose x \<notin> set ls2"
        by blast
      from fr1 obtain ls1
        where c0: "connections t1 = connections t"
          and e0: "events t1 = events t @ ls1" and n1: "\<forall>x. EvClose x \<notin> set ls1"
        by blast
      have "events tX = events t @ (ls1 @ ls2)" by (simp add: tX_def e2 e0)
      moreover have "\<forall>x. EvClose x \<notin> set (ls1 @ ls2)" using n1 n2 by simp
      moreover have "connections tX = connections t" by (simp add: tX_def c2 c0)
      ultimately show "connections tX = connections t
          \<and> (\<exists>ls. events tX = events t @ ls \<and> (\<forall>x. EvClose x \<notin> set ls))"
        by (intro conjI exI [of _ "ls1 @ ls2"])
    qed
    have body: "(StatsConn c uid = c \<or> (\<exists>uid'. StatsConn c uid = StatsConn c uid'))
         \<and> connections t' = connections tX @ [(next_id tX, StatsConn c uid)]
         \<and> events t' = events tX @ [EvDispatchLink ctx destination,
                                     EvLog ''[TCP] dispatchLink failed: '']
         \<and> ((\<forall>k. lockTable t k = None) \<longrightarrow>
               connections tX = connections t
             \<and> (\<exists>ls. events tX = events t @ ls \<and> (\<forall>x. EvClose x \<notin> set ls)))"
      using c1 e1 nw by simp
    show ?thesis
      by (rule exI [of _ tX], rule exI [of _ "StatsConn c uid"], rule exI [of _ ctx]) (rule body)
  qed
qed

text \<open>
  C8. When \<^verbatim>\<open>DispatchLink\<close> returns an error, \<^verbatim>\<open>NewConnection\<close> returns with the
  connection (wrapped for the statistics or not) as the last element of the connection
  list, and the last things it did are the dispatch and the log line: it has neither closed
  the connection nor removed it. When the call did not have to wait for another creator,
  the list is the one it found with that element appended, and the call has closed nothing
  at all. \<^verbatim>\<open>Close\<close> then closes the connection, and leaves it in the list.
\<close>

theorem NewConnection_dispatch_error_stays_registered:
  assumes "NewConnection env t source destination c = Returned t'"
    and "\<forall>ctx. DispatchLink_err env ctx destination \<noteq> None"
  shows "\<exists>tok c'.
           (c' = c \<or> (\<exists>uid. c' = StatsConn c uid))
         \<and> connections t' \<noteq> [] \<and> last (connections t') = (tok, c')
         \<and> (\<exists>pre ctx. events t' = pre @ [EvDispatchLink ctx destination,
                                            EvLog ''[TCP] dispatchLink failed: ''])
         \<and> ((\<forall>k. lockTable t k = None) \<longrightarrow>
               connections t' = connections t @ [(tok, c')]
             \<and> (\<forall>x. EvClose x \<notin> set (drop (length (events t)) (events t'))))
         \<and> EvClose (CloseConn c') \<in> set (drop (length (events t')) (events (Close t')))
         \<and> connections (Close t') = connections t'"
proof -
  from NewConnection_dispatch_error_shape [OF assms] obtain tX :: tun2ray and c' ctx
    where w: "c' = c \<or> (\<exists>uid. c' = StatsConn c uid)"
      and cs: "connections t' = connections tX @ [(next_id tX, c')]"
      and es: "events t' = events tX @ [EvDispatchLink ctx destination,
                                        EvLog ''[TCP] dispatchLink failed: '']"
      and nw: "(\<forall>k. lockTable t k = None) \<longrightarrow>
                 connections tX = connections t
               \<and> (\<exists>ls. events tX = events t @ ls \<and> (\<forall>x. EvClose x \<notin> set ls))"
    by blast
  have l: "connections t' \<noteq> [] \<and> last (connections t') = (next_id tX, c')"
    by (simp add: cs)
  have p: "\<exists>pre ctx. events t' = pre @ [EvDispatchLink ctx destination,
                                          EvLog ''[TCP] dispatchLink failed: '']"
    by (rule exI [of _ "events tX"], rule exI [of _ ctx]) (rule es)
  have "(next_id tX, c') \<in> set (connections t')" by (simp add: cs)
  then have cl: "EvClose (CloseConn c') \<in> set (drop (length (events t')) (events (Close t')))"
    by (rule Close_closes_registered)
  have k: "connections (Close t') = connections t'" by (simp add: Close_fields)
  have q: "(\<forall>k. lockTable t k = None) \<longrightarrow>
               connections t' = connections t @ [(next_id tX, c')]
             \<and> (\<forall>x. EvClose x \<notin> set (drop (length (events t)) (events t')))"
  proof
    assume "\<forall>k. lockTable t k = None"
    with nw obtain ls where c0: "connections tX = connections t"
      and e0: "events tX = events t @ ls" and n0: "\<forall>x. EvClose x \<notin> set ls"
      by blast
    have "drop (length (events t)) (events t') =
            ls @ [EvDispatchLink ctx destination, EvLog ''[TCP] dispatchLink failed: '']"
      by (simp add: es e0)
    then show "connections t' = connections t @ [(next_id tX, c')]
             \<and> (\<forall>x. EvClose x \<notin> set (drop (length (events t)) (events t')))"
      using n0 by (simp add: cs c0)
  qed
  have body: "(c' = c \<or> (\<exists>uid. c' = StatsConn c uid))
         \<and> connections t' \<noteq> [] \<and> last (connections t') = (next_id tX, c')
         \<and> (\<exists>pre ctx. events t' = pre @ [EvDispatchLink ctx destination,
                                            EvLog ''[TCP] dispatchLink failed: ''])
         \<and> ((\<forall>k. lockTable t k = None) \<longrightarrow>
               connections t' = connections t @ [(next_id tX, c')]
             \<and> (\<forall>x. EvClose x \<notin> set (drop (length (events t)) (events t'))))
         \<and> EvClose (CloseConn c') \<in> set (drop (length (events t')) (events (Close t')))
         \<and> connections (Close t') = connections t'"
    using w l p q cl k by (intro conjI) simp_all
  show ?thesis
    by (rule exI [of _ "next_id tX"], rule exI [of _ c']) (rule body)
qed

theorem NewConnection_dispatch_error_stays_registered_witness:
  "\<exists>t'. NewConnection (sample_env 10042) sample_tun sample_source sample_destination (Conn 9)
           = Returned t'
      \<and> (\<forall>ctx. DispatchLink_err (sample_env 10042) ctx sample_destination \<noteq> None)
      \<and> (\<exists>tok c'. connections t' = connections sample_tun @ [(tok, c')]
             \<and> EvClose (CloseConn c') \<in> set (drop (length (events t')) (events (Close t'))))"
proof -
  have "\<exists>t'. NewConnection (sample_env 10042) sample_tun sample_source sample_destination (Conn 9)
             = Returned t'"
    by (simp add: NewConnection_def nc_uid_def acquire_stats_def nc_dispatch_def PushBack_def
        upd_stats_def new_inbound_def build_ctx_def Address_String_def IsIPv6_def emit_def
        sample_env_def sample_tun_def sample_source_def sample_destination_def Let_def)
  then obtain t' where t': "NewConnection (sample_env 10042) sample_tun sample_source
      sample_destination (Conn 9) = Returned t'"
    by (rule exE)
  have f: "\<forall>ctx. DispatchLink_err (sample_env 10042) ctx sample_destination \<noteq> None"
    by (simp add: sample_env_def)
  have n: "\<forall>k. lockTable sample_tun k = None"
    by (simp add: sample_tun_def)
  from NewConnection_dispatch_error_stays_registered [OF t' f]
  obtain tok c' where b: "(\<forall>k. lockTable sample_tun k = None) \<longrightarrow>
        connections t' = connections sample_tun @ [(tok, c')]
      \<and> (\<forall>x. EvClose x \<notin> set (drop (length (events sample_tun)) (events t')))"
    and cl: "EvClose (CloseConn c') \<in> set (drop (length (events t')) (events (Close t')))"
    by (elim exE conjE)
  from b n have "connections t' = connections sample_tun @ [(tok, c')]"
    by simp
  with cl have "\<exists>tok c'. connections t' = connections sample_tun @ [(tok, c')]
             \<and> EvClose (CloseConn c') \<in> set (drop (length (events t')) (events (Close t')))"
    by (intro exI conjI)
  with t' f show ?thesis
    by (intro exI [of _ t'] conjI)
qed

section \<open>Properties of the ping handler\<close>

lemma capture_defaultOutboundForPing_None:
  assumes "\<forall>tag. d \<noteq> Some (AppOutboundHandler tag WireGuardClient)"
  shows "capture_defaultOutboundForPing d = None"
  using assms
  by (auto simp: capture_defaultOutboundForPing_def
      split: option.splits handler.splits outbound_proxy.splits)

text \<open>The creator that finds no route and has no default outbound for ping.\<close>

lemma ping_create_no_route:
  assumes "PickRoute env (ping_ctx env source destination) = Inl err"
    and "defaultOutboundForPing t = None"
  shows "ping_create env t natKey source destination = (False, t)"
  using assms by (simp add: ping_create_def Let_def)

text \<open>The creator whose route names a tag that no handler has.\<close>

lemma ping_create_no_handler:
  assumes "PickRoute env (ping_ctx env source destination) = Inr tag"
    and "GetHandler env tag = None"
  shows "ping_create env t natKey source destination = (False, emit [EvLog ''non existing tag: ''] t)"
  using assms by (simp add: ping_create_def Let_def)

lemma NewPingPacket_creator:
  assumes "udpTable t (ping_natKey env source destination) = None"
    and "lockTable t (StrKey (ping_natKey env source destination)) = None"
  shows "NewPingPacket env t source destination message =
           (case ping_create env
                   (t\<lparr>lockTable := (lockTable t)(StrKey (ping_natKey env source destination) \<mapsto> next_id t),
                      next_id := Suc (next_id t)\<rparr>)
                   (ping_natKey env source destination) source destination of
              (r, t3) \<Rightarrow>
                Returned (r, emit [EvBroadcast (next_id t)]
                               (t3\<lparr>lockTable := (lockTable t3)(StrKey (ping_natKey env source destination) := None)\<rparr>)))"
  using assms by (simp add: NewPingPacket_def ping_sendTo_def Let_def)

text \<open>
  C4. A call of \<^verbatim>\<open>NewPingPacket\<close> that becomes the single-flight creator (the key is
  neither in the NAT table nor in the lock table) and obtains no route: either the router
  picks no route and the default outbound captured at initialisation is not a WireGuard
  one, or the tag the router picks has no handler. The call returns false; the connection
  list and the NAT table are what they were; the entry of the key in the lock table is
  deleted; and the last thing the call does is the broadcast on the condition variable it
  had stored there, after at most the log line on the missing tag.
\<close>

theorem NewPingPacket_no_route:
  assumes "udpTable t (ping_natKey env source destination) = None"
    and "lockTable t (StrKey (ping_natKey env source destination)) = None"
    and "(\<exists>err. PickRoute env (ping_ctx env source destination) = Inl err)
           \<and> defaultOutboundForPing t = capture_defaultOutboundForPing d
           \<and> (\<forall>tag. d \<noteq> Some (AppOutboundHandler tag WireGuardClient))
         \<or> (\<exists>tag. PickRoute env (ping_ctx env source destination) = Inr tag
                  \<and> GetHandler env tag = None)"
  shows "case NewPingPacket env t source destination message of
           Returned (r, t') \<Rightarrow>
               \<not> r
             \<and> connections t' = connections t
             \<and> udpTable t' = udpTable t
             \<and> lockTable t' (StrKey (ping_natKey env source destination)) = None
             \<and> events t' \<noteq> [] \<and> last (events t') = EvBroadcast (next_id t)
             \<and> (\<forall>e \<in> set (drop (length (events t)) (events t')).
                   e = EvBroadcast (next_id t) \<or> e = EvLog ''non existing tag: '')
         | Panicked m \<Rightarrow> False
         | Blocked \<Rightarrow> False"
proof -
  let ?k = "ping_natKey env source destination"
  let ?t2 = "t\<lparr>lockTable := (lockTable t)(StrKey ?k \<mapsto> next_id t), next_id := Suc (next_id t)\<rparr>"
  from assms(3) consider
    (none) err where "PickRoute env (ping_ctx env source destination) = Inl err"
      and "defaultOutboundForPing t = None"
    | (tag) tag where "PickRoute env (ping_ctx env source destination) = Inr tag"
      and "GetHandler env tag = None"
    using capture_defaultOutboundForPing_None [of d] by auto
  then show ?thesis
  proof cases
    case none
    then have "ping_create env ?t2 ?k source destination = (False, ?t2)"
      by (intro ping_create_no_route) simp_all
    then show ?thesis
      by (simp add: NewPingPacket_creator [OF assms(1,2)])
  next
    case tag
    then have "ping_create env ?t2 ?k source destination =
        (False, emit [EvLog ''non existing tag: ''] ?t2)"
      by (intro ping_create_no_handler)
    then show ?thesis
      by (simp add: NewPingPacket_creator [OF assms(1,2)])
  qed
qed

theorem NewPingPacket_no_route_witness:
  "(case NewPingPacket (sample_env 0) sample_tun sample_source sample_destination [8, 0] of
      Returned (r, t') \<Rightarrow>
        \<not> r \<and> connections t' = [] \<and> lockTable t' (StrKey ''ip-ip'') = None
      \<and> events t' = [EvBroadcast 0]
    | Panicked m \<Rightarrow> False
    | Blocked \<Rightarrow> False)
 \<and> (case NewPingPacket ((sample_env 0)\<lparr>PickRoute := (\<lambda>ctx. Inr ''proxy'')\<rparr>)
           (sample_tun\<lparr>defaultOutboundForPing := Some (AppOutboundHandler ''wg'' WireGuardClient)\<rparr>)
           sample_source sample_destination [8, 0] of
      Returned (r, t') \<Rightarrow>
        \<not> r \<and> connections t' = [] \<and> lockTable t' (StrKey ''ip-ip'') = None
      \<and> events t' = [EvLog ''non existing tag: '', EvBroadcast 0]
    | Panicked m \<Rightarrow> False
    | Blocked \<Rightarrow> False)"
  using NewPingPacket_no_route [of sample_tun "sample_env 0" sample_source sample_destination
      "Some (ForeignHandler ''direct'')" "[8, 0]"]
    NewPingPacket_no_route [of
      "sample_tun\<lparr>defaultOutboundForPing := Some (AppOutboundHandler ''wg'' WireGuardClient)\<rparr>"
      "(sample_env 0)\<lparr>PickRoute := (\<lambda>ctx. Inr ''proxy'')\<rparr>" sample_source sample_destination
      "Some (AppOutboundHandler ''wg'' WireGuardClient)" "[8, 0]"]
  by (simp add: NewPingPacket_def ping_sendTo_def ping_create_def ping_natKey_def ping_ctx_def
      Address_String_def capture_defaultOutboundForPing_def new_inbound_def emit_def
      sample_env_def sample_tun_def sample_source_def sample_destination_def Let_def)

end
